theory Spec2Isabelle
  imports Main "HOL-Library.Word" "HOL-Library.Sublist"
begin

section \<open>Strings of the host language\<close>

text \<open>
  A JavaScript string is a sequence of 16-bit code units. Literals of the source that are
  plain ASCII are written through \<open>js\<close>; the four Portuguese messages contain the code
  units U+00E1 and U+00E3, which are spliced in as numbers.
\<close>

type_synonym jsstring = "16 word list"

definition js :: "string \<Rightarrow> jsstring" where
  "js s = map of_char s"

text \<open>
  \<open>String.prototype.trim\<close> removes leading and trailing code units that are WhiteSpace
  or LineTerminator in ECMAScript: TAB, LF, VT, FF, CR, SP, NBSP, U+1680, U+2000..U+200A,
  U+2028, U+2029, U+202F, U+205F, U+3000 and the byte order mark U+FEFF.
\<close>

definition isWhiteSpace :: "16 word \<Rightarrow> bool" where
  "isWhiteSpace c =
     (c = 0x0009 \<or> c = 0x000A \<or> c = 0x000B \<or> c = 0x000C \<or> c = 0x000D \<or> c = 0x0020 \<or>
      c = 0x00A0 \<or> c = 0x1680 \<or> (0x2000 \<le> c \<and> c \<le> 0x200A) \<or> c = 0x2028 \<or>
      c = 0x2029 \<or> c = 0x202F \<or> c = 0x205F \<or> c = 0x3000 \<or> c = 0xFEFF)"

definition trim :: "jsstring \<Rightarrow> jsstring" where
  "trim s = rev (dropWhile isWhiteSpace (rev (dropWhile isWhiteSpace s)))"

section \<open>The recognition hook (src/hooks/useSpeechRecognition.tsx)\<close>

subsection \<open>Data\<close>

text \<open>
  One slot of \<open>event.results\<close>: its \<open>isFinal\<close> flag and the transcripts of its
  alternatives, in index order. The hook reads alternative 0 only.
\<close>

record SpeechRecognitionResult =
  isFinal :: bool
  alternatives :: "jsstring list"

record SpeechRecognitionEvent =
  resultIndex :: nat
  results :: "SpeechRecognitionResult list"

datatype stop_reason = User | Paused | Auto

datatype engine_call = EngineStart | EngineStop

text \<open>
  What \<open>setError\<close> is handed: a message, or, when the error code happens to name a
  member that the object literal \<open>errorMessages\<close> inherits from \<open>Object.prototype\<close>,
  that member (which is no message).
\<close>

datatype error_value = Message jsstring | InheritedMember jsstring

text \<open>
  What \<open>stateRef.current\<close> holds (line 82): a copy of four of the cells, made by the
  effect of lines 83-85. The callbacks read the session's state from this copy only; its
  fields carry the names \<open>handleEnd\<close> gives them at line 120.
\<close>

record snapshot =
  isListeningNow :: bool
  isPausedNow :: bool
  liveTranscriptNow :: jsstring
  finalTranscriptNow :: jsstring

text \<open>
  The state of the hook: the six \<open>useState\<close> cells, \<open>stopReasonRef\<close>, \<open>stateRef\<close>,
  whether the timer held by \<open>speakingTimeoutRef\<close> is pending, the \<open>lang\<close> of the
  recognition object, and the log of the calls made on the recognition object (oldest
  first). A write to a cell (\<open>setIsListening\<close>, \<open>setFinalTranscript\<close>, ...) does not
  reach \<open>stateRef\<close>: that takes a render and the effect after it, which is an event of
  its own, so that any number of callbacks may run between two refreshes of the copy.

  The model is of a host that provides \<open>SpeechRecognition\<close>, so that
  \<open>recognitionRef.current\<close> is never null. \<open>start()\<close> and \<open>stop()\<close> on the
  recognition object are the last statement of every handler making them, so whether the
  host accepts the call has no bearing on the state the handler leaves.
\<close>

record hook_state =
  isListening :: bool
  isPaused :: bool
  isSpeaking :: bool
  liveTranscript :: jsstring
  finalTranscript :: jsstring
  error :: "error_value option"
  stopReasonRef :: stop_reason
  stateRef :: snapshot
  speakingTimeoutPending :: bool
  recognition_lang :: jsstring
  engine_calls :: "engine_call list"

definition initial :: hook_state where
  "initial =
     \<lparr>isListening = False, isPaused = False, isSpeaking = False,
      liveTranscript = [], finalTranscript = [], error = None,
      stopReasonRef = Auto,
      stateRef = \<lparr>isListeningNow = False, isPausedNow = False,
                  liveTranscriptNow = [], finalTranscriptNow = []\<rparr>,
      speakingTimeoutPending = False,
      recognition_lang = js ''pt-BR'', engine_calls = []\<rparr>"

subsection \<open>The effect that refreshes stateRef (lines 83-85)\<close>

definition stateRefEffect :: "hook_state \<Rightarrow> hook_state" where
  "stateRefEffect s =
     s\<lparr>stateRef := \<lparr>isListeningNow = isListening s, isPausedNow = isPaused s,
                     liveTranscriptNow = liveTranscript s,
                     finalTranscriptNow = finalTranscript s\<rparr>\<rparr>"

subsection \<open>processResults (lines 88-112)\<close>

datatype js_exception = TypeError

text \<open>
  The \<open>for\<close> loop of lines 100-107, from index \<open>i\<close> on. \<open>event.results[i][0]\<close> is
  \<open>undefined\<close> for a slot without alternatives, and reading \<open>.transcript\<close> of it
  throws.
\<close>

function results_loop ::
  "SpeechRecognitionEvent \<Rightarrow> nat \<Rightarrow> jsstring \<Rightarrow> jsstring \<Rightarrow> js_exception + (jsstring \<times> jsstring)"
where
  "results_loop event i final interim =
     (if i < length (results event) then
        (case alternatives (results event ! i) of
           [] \<Rightarrow> Inl TypeError
         | transcript # _ \<Rightarrow>
             if isFinal (results event ! i)
             then results_loop event (i + 1) (final @ transcript) interim
             else results_loop event (i + 1) final (interim @ transcript))
      else Inr (final, interim))"
  by pat_completeness auto
termination
  by (relation "measure (\<lambda>(event, i, final, interim). length (results event) - i)") auto

declare results_loop.simps [simp del]

text \<open>
  The speaking flag and its timer are set before the loop, so they stay set when the
  loop throws; the two transcripts are written after it only. The text the loop builds
  upon is the final transcript of \<open>stateRef.current\<close> (line 97).
\<close>

definition processResults :: "SpeechRecognitionEvent \<Rightarrow> hook_state \<Rightarrow> hook_state" where
  "processResults event s =
     (let s1 = s\<lparr>isSpeaking := True, speakingTimeoutPending := True\<rparr> in
      case results_loop event (resultIndex event) (finalTranscriptNow (stateRef s)) [] of
        Inl _ \<Rightarrow> s1
      | Inr (final, interim) \<Rightarrow>
          s1\<lparr>finalTranscript := final, liveTranscript := final @ interim\<rparr>)"

text \<open>The callback of the 500 ms timer of line 94, when it is still pending.\<close>

definition speakingTimeout :: "hook_state \<Rightarrow> hook_state" where
  "speakingTimeout s =
     (if speakingTimeoutPending s
      then s\<lparr>isSpeaking := False, speakingTimeoutPending := False\<rparr>
      else s)"

subsection \<open>handleEnd (lines 114-131)\<close>

text \<open>
  Line 120 takes \<open>isListeningNow\<close>, \<open>isPausedNow\<close> and \<open>liveTranscriptNow\<close> out of
  \<open>stateRef.current\<close>; \<open>stopReasonRef\<close> is read directly.
\<close>

definition handleEnd :: "hook_state \<Rightarrow> hook_state" where
  "handleEnd s =
     (let s1 = s\<lparr>isSpeaking := False, speakingTimeoutPending := False\<rparr> in
      if stopReasonRef s = Auto \<and> isListeningNow (stateRef s) \<and> \<not> isPausedNow (stateRef s)
      then s1\<lparr>engine_calls := engine_calls s @ [EngineStart]\<rparr>
      else
        (let finalVersion = trim (liveTranscriptNow (stateRef s)) in
         s1\<lparr>finalTranscript := finalVersion, liveTranscript := finalVersion\<rparr>))"

subsection \<open>recognition.onerror (lines 145-167)\<close>

definition errorMessages :: "(jsstring \<times> jsstring) list" where
  "errorMessages =
     [(js ''no-speech'',
         js ''Nenhum som foi detectado. Verifique se seu microfone est'' @ [0xE1] @
         js '' funcionando.''),
      (js ''audio-capture'',
         js ''Falha ao capturar '' @ [0xE1] @ js ''udio. O microfone est'' @ [0xE1] @
         js '' sendo usado por outro aplicativo?''),
      (js ''not-allowed'',
         js ''Permiss'' @ [0xE3] @ js ''o para usar o microfone foi negada ou bloqueada.''),
      (js ''network'',
         js ''Ocorreu um erro de rede. Verifique sua conex'' @ [0xE3] @
         js ''o com a internet.'')]"

text \<open>The property names every object literal inherits from \<open>Object.prototype\<close>.\<close>

definition Object_prototype_names :: "jsstring list" where
  "Object_prototype_names =
     [js ''constructor'', js ''hasOwnProperty'', js ''isPrototypeOf'',
      js ''propertyIsEnumerable'', js ''toLocaleString'', js ''toString'', js ''valueOf'',
      js ''__proto__'', js ''__defineGetter__'', js ''__defineSetter__'',
      js ''__lookupGetter__'', js ''__lookupSetter__'']"

text \<open>
  \<open>errorMessages[event.error] || `Um erro inesperado ocorreu: ${event.error}`\<close>: an own
  property wins, then an inherited one (a function or an object, hence truthy), and the
  template is taken when the lookup is \<open>undefined\<close> or the empty string.
\<close>

definition errorMessage :: "jsstring \<Rightarrow> error_value" where
  "errorMessage code =
     (case map_of errorMessages code of
        Some m \<Rightarrow>
          if m \<noteq> [] then Message m
          else Message (js ''Um erro inesperado ocorreu: '' @ code)
      | None \<Rightarrow>
          if List.member Object_prototype_names code then InheritedMember code
          else Message (js ''Um erro inesperado ocorreu: '' @ code))"

definition onerror :: "jsstring \<Rightarrow> hook_state \<Rightarrow> hook_state" where
  "onerror code s =
     (if code = js ''aborted'' then s
      else s\<lparr>error := Some (errorMessage code), stopReasonRef := User,
             isListening := False, isPaused := False, isSpeaking := False\<rparr>)"

subsection \<open>The four operations (lines 177-214)\<close>

text \<open>\<open>startListening\<close> has a default parameter: no argument means \<open>pt-BR\<close>.\<close>

definition startListening :: "jsstring option \<Rightarrow> hook_state \<Rightarrow> hook_state" where
  "startListening lang s =
     s\<lparr>recognition_lang := (case lang of None \<Rightarrow> js ''pt-BR'' | Some l \<Rightarrow> l),
       error := None, liveTranscript := [], finalTranscript := [],
       isListening := True, isPaused := False, stopReasonRef := Auto,
       engine_calls := engine_calls s @ [EngineStart]\<rparr>"

definition stopListening :: "hook_state \<Rightarrow> hook_state" where
  "stopListening s =
     s\<lparr>stopReasonRef := User, isListening := False, isPaused := False,
       engine_calls := engine_calls s @ [EngineStop]\<rparr>"

definition pauseListening :: "hook_state \<Rightarrow> hook_state" where
  "pauseListening s =
     s\<lparr>stopReasonRef := Paused, isPaused := True,
       engine_calls := engine_calls s @ [EngineStop]\<rparr>"

text \<open>\<open>resumeListening\<close> trims the live transcript of \<open>stateRef.current\<close> (line 205).\<close>

definition resumeListening :: "hook_state \<Rightarrow> hook_state" where
  "resumeListening s =
     (let trimmedFinal = trim (liveTranscriptNow (stateRef s));
          s1 = (if trimmedFinal \<noteq> []
                then s\<lparr>finalTranscript := trimmedFinal @ js '' '',
                       liveTranscript := trimmedFinal @ js '' ''\<rparr>
                else s)
      in s1\<lparr>stopReasonRef := Auto, isPaused := False,
            engine_calls := engine_calls s @ [EngineStart]\<rparr>)"

subsection \<open>Events and runs\<close>

datatype hook_event =
    StartListening "jsstring option"
  | StopListening
  | PauseListening
  | ResumeListening
  | OnResult SpeechRecognitionEvent
  | OnEnd
  | OnError jsstring
  | SpeakingTimeout
  | StateRefEffect

fun hook_step :: "hook_event \<Rightarrow> hook_state \<Rightarrow> hook_state" where
  "hook_step (StartListening lang) s = startListening lang s"
| "hook_step StopListening s = stopListening s"
| "hook_step PauseListening s = pauseListening s"
| "hook_step ResumeListening s = resumeListening s"
| "hook_step (OnResult event) s = processResults event s"
| "hook_step OnEnd s = handleEnd s"
| "hook_step (OnError code) s = onerror code s"
| "hook_step SpeakingTimeout s = speakingTimeout s"
| "hook_step StateRefEffect s = stateRefEffect s"

text \<open>
  The state after a sequence of events, the first of the list being the earliest. The
  refresh of \<open>stateRef\<close> is one of the events, so a run may put it after every other
  event, or let several callbacks pass before it.
\<close>

fun run :: "hook_event list \<Rightarrow> hook_state \<Rightarrow> hook_state" where
  "run [] s = s"
| "run (e # es) s = run es (hook_step e s)"

section \<open>The application (src/App.tsx)\<close>

subsection \<open>Data\<close>

text \<open>
  A history entry (\<open>Transcript\<close> of src/components/HistoryModal.tsx); its \<open>id\<close> is the
  value of \<open>Date.now()\<close> at creation.
\<close>

record Transcript =
  id' :: nat
  date :: jsstring
  content :: jsstring

text \<open>What the host's clock answers when an entry is created.\<close>

record clock =
  Date_now :: nat
  toLocaleString :: jsstring

text \<open>
  The state of \<open>App\<close> that the history depends on: the hook, the editable document,
  the history list and the selected language. The copies written to \<open>localStorage\<close>
  follow \<open>history\<close> and \<open>finalContent\<close> and are read at mount only.
\<close>

record app_state =
  hook :: hook_state
  finalContent :: jsstring
  history :: "Transcript list"
  selectedLang :: jsstring

definition app_initial :: app_state where
  "app_initial =
     \<lparr>hook = initial, finalContent = [], history = [], selectedLang = js ''pt-BR''\<rparr>"

subsection \<open>The history-save effect (lines 61-82)\<close>

text \<open>Whether the body of the effect reaches its call of \<open>setHistory\<close>.\<close>

definition isAlreadySaved :: "jsstring \<Rightarrow> Transcript list \<Rightarrow> bool" where
  "isAlreadySaved trimmedContent h = list_ex (\<lambda>item. trim (content item) = trimmedContent) h"

definition setsHistory :: "app_state \<Rightarrow> bool" where
  "setsHistory s =
     (\<not> isListening (hook s) \<and> finalTranscript (hook s) \<noteq> [] \<and>
      length (trim (finalTranscript (hook s))) > 0 \<and>
      \<not> isAlreadySaved (trim (finalTranscript (hook s))) (history s))"

text \<open>One run of the body of the effect.\<close>

definition saveEffect :: "clock \<Rightarrow> app_state \<Rightarrow> app_state" where
  "saveEffect c s =
     (if \<not> isListening (hook s) \<and> finalTranscript (hook s) \<noteq> [] then
        (let s1 = s\<lparr>finalContent := finalTranscript (hook s)\<rparr>;
             trimmedContent = trim (finalTranscript (hook s))
         in if length trimmedContent > 0 \<and> \<not> isAlreadySaved trimmedContent (history s)
            then s1\<lparr>history :=
                      \<lparr>id' = Date_now c, date = toLocaleString c, content = trimmedContent\<rparr>
                      # history s\<rparr>
            else s1)
      else s)"

text \<open>
  The effect depends on \<open>[isListening, finalTranscript, history]\<close>. A run that calls
  \<open>setHistory\<close> changes \<open>history\<close>, so the effect runs again after the next render; a
  run that does not leaves its dependencies as they are, and nothing more happens.
\<close>

function settle :: "clock \<Rightarrow> app_state \<Rightarrow> app_state" where
  "settle c s = (if setsHistory s then settle c (saveEffect c s) else saveEffect c s)"
  by pat_completeness auto
termination
proof (relation "measure (\<lambda>(c, s). if setsHistory s then 1 else 0)")
  show "wf (measure (\<lambda>(c :: clock, s). if setsHistory s then 1 else 0))"
    by simp
next
  fix c :: clock and s :: app_state
  assume sets: "setsHistory s"
  define t where "t = trim (finalTranscript (hook s))"
  define u where "u = dropWhile isWhiteSpace (finalTranscript (hook s))"
  have t_u: "t = rev (dropWhile isWhiteSpace (rev u))"
    by (simp add: t_def u_def trim_def)
  have rear: "dropWhile isWhiteSpace (rev t) = rev t"
    by (simp add: t_u)
  have "t \<noteq> []"
    using sets by (simp add: setsHistory_def t_def)
  then have "u \<noteq> []"
    by (auto simp: t_u)
  then have "\<not> isWhiteSpace (hd u)"
    unfolding u_def by (rule hd_dropWhile)
  moreover have "hd t = hd u"
  proof -
    from \<open>t \<noteq> []\<close> obtain ys where "rev u = ys @ rev t"
      unfolding t_u by (metis rev_rev_ident takeWhile_dropWhile_id)
    then have "u = t @ rev ys"
      by (metis rev_append rev_rev_ident)
    with \<open>t \<noteq> []\<close> show ?thesis by simp
  qed
  ultimately have front: "dropWhile isWhiteSpace t = t"
    using \<open>t \<noteq> []\<close> by (simp add: dropWhile_eq_self_iff)
  have "trim t = t"
    by (simp add: trim_def front rear)
  then have "isAlreadySaved t (history (saveEffect c s))"
    using sets by (simp add: saveEffect_def setsHistory_def isAlreadySaved_def t_def Let_def)
  moreover have "hook (saveEffect c s) = hook s"
    by (simp add: saveEffect_def Let_def)
  ultimately have "\<not> setsHistory (saveEffect c s)"
    by (simp add: setsHistory_def t_def)
  with sets show "((c, saveEffect c s), (c, s)) \<in> measure (\<lambda>(c, s). if setsHistory s then 1 else 0)"
    by simp
qed

declare settle.simps [simp del]

subsection \<open>Handlers and events\<close>

definition handleStartStop :: "app_state \<Rightarrow> app_state" where
  "handleStartStop s =
     (if isListening (hook s) then s\<lparr>hook := stopListening (hook s)\<rparr>
      else s\<lparr>finalContent := [], hook := startListening (Some (selectedLang s)) (hook s)\<rparr>)"

definition handlePauseResume :: "app_state \<Rightarrow> app_state" where
  "handlePauseResume s =
     (if isPaused (hook s) then s\<lparr>hook := resumeListening (hook s)\<rparr>
      else s\<lparr>hook := pauseListening (hook s)\<rparr>)"

definition handleDeleteTranscript :: "nat \<Rightarrow> app_state \<Rightarrow> app_state" where
  "handleDeleteTranscript i s = s\<lparr>history := filter (\<lambda>item. id' item \<noteq> i) (history s)\<rparr>"

definition handleClearHistory :: "app_state \<Rightarrow> app_state" where
  "handleClearHistory s = s\<lparr>history := []\<rparr>"

definition handleViewHistoryItem :: "Transcript \<Rightarrow> app_state \<Rightarrow> app_state" where
  "handleViewHistoryItem item s = s\<lparr>finalContent := content item\<rparr>"

text \<open>
  What can happen to \<open>App\<close>: its own handlers, the text area and the language selector,
  and the callbacks of the recognition object and of the speaking timer.
\<close>

datatype app_event =
    HandleStartStop
  | HandlePauseResume
  | HandleDeleteTranscript nat
  | HandleClearHistory
  | HandleViewHistoryItem Transcript
  | ChangeContent jsstring
  | ChangeLang jsstring
  | Recognition_onresult SpeechRecognitionEvent
  | Recognition_onend
  | Recognition_onerror jsstring
  | SpeakingTimer

fun app_handler :: "app_event \<Rightarrow> app_state \<Rightarrow> app_state" where
  "app_handler HandleStartStop s = handleStartStop s"
| "app_handler HandlePauseResume s = handlePauseResume s"
| "app_handler (HandleDeleteTranscript i) s = handleDeleteTranscript i s"
| "app_handler HandleClearHistory s = handleClearHistory s"
| "app_handler (HandleViewHistoryItem item) s = handleViewHistoryItem item s"
| "app_handler (ChangeContent v) s = s\<lparr>finalContent := v\<rparr>"
| "app_handler (ChangeLang v) s = s\<lparr>selectedLang := v\<rparr>"
| "app_handler (Recognition_onresult event) s = s\<lparr>hook := processResults event (hook s)\<rparr>"
| "app_handler Recognition_onend s = s\<lparr>hook := handleEnd (hook s)\<rparr>"
| "app_handler (Recognition_onerror code) s = s\<lparr>hook := onerror code (hook s)\<rparr>"
| "app_handler SpeakingTimer s = s\<lparr>hook := speakingTimeout (hook s)\<rparr>"

text \<open>
  \<open>handleDeleteTranscript\<close> and \<open>handleClearHistory\<close> hand React a fresh array, which
  is a changed dependency whatever it holds; booleans and strings are compared by value.
\<close>

fun replacesHistory :: "app_event \<Rightarrow> bool" where
  "replacesHistory (HandleDeleteTranscript i) = True"
| "replacesHistory HandleClearHistory = True"
| "replacesHistory _ = False"

text \<open>
  One event of the application together with the render it causes and the effects of
  that render: the hook's effect of lines 83-85 first (the hook is called at the top of
  \<open>App\<close>), then the history-save effect when one of its dependencies has changed.
  What the hook does when callbacks come faster than renders is the matter of \<open>run\<close>.
\<close>

definition app_step :: "clock \<Rightarrow> app_event \<Rightarrow> app_state \<Rightarrow> app_state" where
  "app_step c ev s =
     (let s1 = app_handler ev s;
          s2 = s1\<lparr>hook := stateRefEffect (hook s1)\<rparr> in
      if replacesHistory ev \<or> isListening (hook s1) \<noteq> isListening (hook s) \<or>
         finalTranscript (hook s1) \<noteq> finalTranscript (hook s)
      then settle c s2
      else s2)"

text \<open>A run of the application; every event comes with the clock's answer at that time.\<close>

fun app_run :: "(clock \<times> app_event) list \<Rightarrow> app_state \<Rightarrow> app_state" where
  "app_run [] s = s"
| "app_run ((c, ev) # es) s = app_run es (app_step c ev s)"

section \<open>Notions used in the statements\<close>

text \<open>
  The slots a batch delivers are those from \<open>resultIndex\<close> on, in index order; the text
  of a slot is the transcript of its alternative 0. \<open>finalDelta\<close> is the concatenation of
  the texts of the final slots of a batch and \<open>interimText\<close> that of the others.
\<close>

definition transcript0 :: "SpeechRecognitionResult \<Rightarrow> jsstring" where
  "transcript0 r = (case alternatives r of [] \<Rightarrow> [] | transcript # _ \<Rightarrow> transcript)"

definition batch :: "SpeechRecognitionEvent \<Rightarrow> SpeechRecognitionResult list" where
  "batch event = drop (resultIndex event) (results event)"

definition finalDelta :: "SpeechRecognitionEvent \<Rightarrow> jsstring" where
  "finalDelta event = concat (map transcript0 (filter isFinal (batch event)))"

definition interimText :: "SpeechRecognitionEvent \<Rightarrow> jsstring" where
  "interimText event = concat (map transcript0 (filter (\<lambda>r. \<not> isFinal r) (batch event)))"

text \<open>\<open>stateRef\<close> holds what the cells hold: no write is waiting for its render.\<close>

definition upToDate :: "hook_state \<Rightarrow> bool" where
  "upToDate s =
     (stateRef s = \<lparr>isListeningNow = isListening s, isPausedNow = isPaused s,
                     liveTranscriptNow = liveTranscript s,
                     finalTranscriptNow = finalTranscript s\<rparr>)"

text \<open>An event followed by the render it causes and the refresh of \<open>stateRef\<close>.\<close>

definition rendered :: "hook_event \<Rightarrow> hook_state \<Rightarrow> hook_state" where
  "rendered e s = stateRefEffect (hook_step e s)"

text \<open>The states a run passes through, the starting state first.\<close>

fun trace :: "hook_event list \<Rightarrow> hook_state \<Rightarrow> hook_state list" where
  "trace [] s = [s]"
| "trace (e # es) s = s # trace es (hook_step e s)"

text \<open>The same when every event is followed by its render.\<close>

fun rendered_trace :: "hook_event list \<Rightarrow> hook_state \<Rightarrow> hook_state list" where
  "rendered_trace [] s = [s]"
| "rendered_trace (e # es) s = s # rendered_trace es (rendered e s)"

text \<open>The events of the engine and of the timer, as opposed to the caller's operations.\<close>

fun resultOrEnd :: "hook_event \<Rightarrow> bool" where
  "resultOrEnd (OnResult event) = True"
| "resultOrEnd OnEnd = True"
| "resultOrEnd SpeakingTimeout = True"
| "resultOrEnd _ = False"

text \<open>A session that listens and is not paused has the stop reason \<open>Auto\<close>.\<close>

definition auto_when_active :: "hook_state \<Rightarrow> bool" where
  "auto_when_active s = (stopReasonRef s = Auto \<or> \<not> isListening s \<or> isPaused s)"

text \<open>The history entries whose trimmed content is \<open>t\<close>.\<close>

definition matching :: "jsstring \<Rightarrow> Transcript list \<Rightarrow> Transcript list" where
  "matching t h = filter (\<lambda>item. trim (content item) = t) h"

subsection \<open>Concrete inputs\<close>

definition hello_event :: SpeechRecognitionEvent where
  "hello_event =
     \<lparr>resultIndex = 0, results = [\<lparr>isFinal = True, alternatives = [js ''hello'']\<rparr>]\<rparr>"

definition wor_event :: SpeechRecognitionEvent where
  "wor_event =
     \<lparr>resultIndex = 0, results = [\<lparr>isFinal = False, alternatives = [js ''wor'']\<rparr>]\<rparr>"

definition world_event :: SpeechRecognitionEvent where
  "world_event =
     \<lparr>resultIndex = 0, results = [\<lparr>isFinal = True, alternatives = [js ''world'']\<rparr>]\<rparr>"

definition test_event :: SpeechRecognitionEvent where
  "test_event =
     \<lparr>resultIndex = 0, results = [\<lparr>isFinal = True, alternatives = [js ''test'']\<rparr>]\<rparr>"

definition ten_event :: SpeechRecognitionEvent where
  "ten_event =
     \<lparr>resultIndex = 0,
      results = [\<lparr>isFinal = True, alternatives = [js ''aaaaaaaaaa'']\<rparr>]\<rparr>"

definition b_event :: SpeechRecognitionEvent where
  "b_event =
     \<lparr>resultIndex = 1,
      results = [\<lparr>isFinal = True, alternatives = [js ''aaaaaaaaaa'']\<rparr>,
                 \<lparr>isFinal = True, alternatives = [js ''b'']\<rparr>]\<rparr>"

definition blank_event :: SpeechRecognitionEvent where
  "blank_event =
     \<lparr>resultIndex = 0, results = [\<lparr>isFinal = True, alternatives = [js '' '']\<rparr>]\<rparr>"

text \<open>A later batch of the same engine run: slot 0 is done, slot 1 is still partial.\<close>

definition wor_tail_event :: SpeechRecognitionEvent where
  "wor_tail_event =
     \<lparr>resultIndex = 1,
      results = [\<lparr>isFinal = True, alternatives = [js ''hello'']\<rparr>,
                 \<lparr>isFinal = False, alternatives = [js '' wor '']\<rparr>]\<rparr>"

text \<open>A session just started, after its render.\<close>

definition listening :: hook_state where
  "listening = run [StartListening None, StateRefEffect] initial"

text \<open>
  Scenario A up to the spontaneous end: \<open>start("en-US")\<close>, then one final slot, each
  followed by its render.
\<close>

definition scenario_A :: hook_state where
  "scenario_A =
     run [StartListening (Some (js ''en-US'')), StateRefEffect,
          OnResult hello_event, StateRefEffect] initial"

text \<open>Scenario A continued by a partial slot: the live transcript is "hello wor ".\<close>

definition mid_sentence :: hook_state where
  "mid_sentence = run [OnResult wor_tail_event, StateRefEffect] scenario_A"

text \<open>
  Scenario A continued by \<open>stop()\<close> and its render, and then by the batch the engine
  still delivers before it ends, with no render after that batch.
\<close>

definition last_words :: hook_state where
  "last_words = run [StopListening, StateRefEffect, OnResult wor_tail_event] scenario_A"

text \<open>A session in which the engine has delivered one final slot holding a blank.\<close>

definition blank_said :: hook_state where
  "blank_said =
     run [StartListening None, StateRefEffect, OnResult blank_event, StateRefEffect] initial"

definition clock1 :: clock where
  "clock1 = \<lparr>Date_now = 1000, toLocaleString = js ''03/11/2026, 10:00:01''\<rparr>"

definition clock2 :: clock where
  "clock2 = \<lparr>Date_now = 2000, toLocaleString = js ''03/11/2026, 10:00:02''\<rparr>"

text \<open>Scenario C up to the stop button: start, one final slot "test", stop.\<close>

definition stopping :: app_state where
  "stopping =
     app_run [(clock1, HandleStartStop), (clock1, Recognition_onresult test_event),
              (clock1, HandleStartStop)] app_initial"

text \<open>Scenario C: the same, followed by the engine's end.\<close>

definition scenario_C :: app_state where
  "scenario_C = app_step clock1 Recognition_onend stopping"

section \<open>Auxiliary facts\<close>

lemmas hook_defs = startListening_def stopListening_def pauseListening_def resumeListening_def
  processResults_def handleEnd_def onerror_def speakingTimeout_def stateRefEffect_def
  initial_def

subsection \<open>Trimming\<close>

lemma dropWhile_trim: "dropWhile isWhiteSpace (trim s) = trim s"
proof (cases "trim s = []")
  case True
  then show ?thesis by simp
next
  case False
  define u where "u = dropWhile isWhiteSpace s"
  have t_u: "trim s = rev (dropWhile isWhiteSpace (rev u))"
    by (simp add: u_def trim_def)
  from False have "u \<noteq> []"
    by (auto simp: t_u)
  then have "\<not> isWhiteSpace (hd u)"
    unfolding u_def by (rule hd_dropWhile)
  moreover have "hd (trim s) = hd u"
  proof -
    obtain ys where "rev u = ys @ rev (trim s)"
      unfolding t_u by (metis rev_rev_ident takeWhile_dropWhile_id)
    then have "u = trim s @ rev ys"
      by (metis rev_append rev_rev_ident)
    with False show ?thesis by simp
  qed
  ultimately show ?thesis
    using False by (simp add: dropWhile_eq_self_iff)
qed

lemma trim_idem: "trim (trim s) = trim s"
proof -
  have "dropWhile isWhiteSpace (rev (trim s)) = rev (trim s)"
    by (simp add: trim_def)
  then show ?thesis
    by (simp add: trim_def[of "trim s"] dropWhile_trim)
qed

lemma trim_Nil: "trim [] = []"
  by (simp add: trim_def)

lemma last_trim: "trim s \<noteq> [] \<Longrightarrow> \<not> isWhiteSpace (last (trim s))"
proof -
  assume ne: "trim s \<noteq> []"
  have "rev (trim s) = dropWhile isWhiteSpace (rev (dropWhile isWhiteSpace s))"
    by (simp add: trim_def)
  moreover from ne have "rev (trim s) \<noteq> []" by simp
  ultimately have "\<not> isWhiteSpace (hd (rev (trim s)))"
    by (metis hd_dropWhile)
  with ne show ?thesis by (simp add: hd_rev)
qed

lemma trim_examples:
  "trim (js ''hello wor '') = js ''hello wor''"
  "trim (js ''hello wor'') = js ''hello wor''"
  "trim (js ''hello'') = js ''hello''"
  "trim (js ''test'') = js ''test''"
  "trim (js '' test '') = js ''test''"
  "trim (js '' '') = []"
  by (simp_all add: trim_def isWhiteSpace_def js_def)

subsection \<open>The loop over a batch\<close>

lemma results_loop_Inr:
  "list_all (\<lambda>r. alternatives r \<noteq> []) (drop i (results event)) \<Longrightarrow>
   results_loop event i final interim =
     Inr (final @ concat (map transcript0 (filter isFinal (drop i (results event)))),
          interim @ concat (map transcript0 (filter (\<lambda>r. \<not> isFinal r) (drop i (results event)))))"
proof (induction event i final interim rule: results_loop.induct)
  case (1 event i final interim)
  show ?case
  proof (cases "i < length (results event)")
    case False
    then show ?thesis by (simp add: results_loop.simps)
  next
    case True
    then have split: "drop i (results event) = results event ! i # drop (Suc i) (results event)"
      by (simp add: Cons_nth_drop_Suc)
    with "1.prems" obtain t ts where alts: "alternatives (results event ! i) = t # ts"
      by (cases "alternatives (results event ! i)") auto
    from alts have t0: "transcript0 (results event ! i) = t"
      by (simp add: transcript0_def)
    from "1.prems" split have rest: "list_all (\<lambda>r. alternatives r \<noteq> []) (drop (i + 1) (results event))"
      by simp
    show ?thesis
    proof (cases "isFinal (results event ! i)")
      case True
      with "1.IH"(1)[OF \<open>i < length (results event)\<close> alts True rest] \<open>i < length (results event)\<close> alts split t0
      show ?thesis
        by (subst results_loop.simps) simp
    next
      case False
      with "1.IH"(2)[OF \<open>i < length (results event)\<close> alts False rest] \<open>i < length (results event)\<close> alts split t0
      show ?thesis
        by (subst results_loop.simps) simp
    qed
  qed
qed

lemma results_loop_prefix:
  "results_loop event i final interim = Inr (final', interim') \<Longrightarrow> prefix final final'"
proof (induction event i final interim rule: results_loop.induct)
  case (1 event i final interim)
  show ?case
  proof (cases "i < length (results event)")
    case False
    with "1.prems" show ?thesis by (simp add: results_loop.simps)
  next
    case True
    show ?thesis
    proof (cases "alternatives (results event ! i)")
      case Nil
      with True "1.prems" show ?thesis by (simp add: results_loop.simps)
    next
      case (Cons t ts)
      show ?thesis
      proof (cases "isFinal (results event ! i)")
        case final: True
        from "1.prems" True Cons final
        have "results_loop event (i + 1) (final @ t) interim = Inr (final', interim')"
          by (subst (asm) results_loop.simps) simp
        from "1.IH"(1)[OF True Cons final this] show ?thesis
          by (rule append_prefixD)
      next
        case nonfinal: False
        from "1.prems" True Cons nonfinal
        have "results_loop event (i + 1) final (interim @ t) = Inr (final', interim')"
          by (subst (asm) results_loop.simps) simp
        from "1.IH"(2)[OF True Cons nonfinal this] show ?thesis .
      qed
    qed
  qed
qed

subsection \<open>processResults\<close>

text \<open>What a batch is added to is the final transcript \<open>stateRef\<close> holds.\<close>

lemma processResults_texts:
  assumes "list_all (\<lambda>r. alternatives r \<noteq> []) (batch event)"
  shows "finalTranscript (processResults event s) =
         finalTranscriptNow (stateRef s) @ finalDelta event"
    and "liveTranscript (processResults event s) =
         finalTranscriptNow (stateRef s) @ finalDelta event @ interimText event"
  using results_loop_Inr [of "resultIndex event" event "finalTranscriptNow (stateRef s)" "[]"]
    assms
  by (simp_all add: processResults_def batch_def finalDelta_def interimText_def)

text \<open>
  With \<open>stateRef\<close> up to date that is the final transcript of the session, and the batch
  is assembled as the assembler's contract has it. Scenario B is an instance.
\<close>

lemma processResults_upToDate:
  assumes "upToDate s" and "list_all (\<lambda>r. alternatives r \<noteq> []) (batch event)"
  shows "finalTranscript (processResults event s) = finalTranscript s @ finalDelta event
     \<and> liveTranscript (processResults event s) =
         finalTranscript (processResults event s) @ interimText event"
proof -
  from assms(1) have "finalTranscriptNow (stateRef s) = finalTranscript s"
    by (simp add: upToDate_def)
  with processResults_texts [OF assms(2), of s] show ?thesis
    by simp
qed

lemma processResults_flags:
  "isListening (processResults event s) = isListening s"
  "isPaused (processResults event s) = isPaused s"
  "stopReasonRef (processResults event s) = stopReasonRef s"
  "stateRef (processResults event s) = stateRef s"
  by (simp_all add: processResults_def Let_def split: sum.splits prod.splits)

lemma processResults_prefix:
  "prefix (finalTranscript s) (finalTranscriptNow (stateRef s)) \<Longrightarrow>
   prefix (finalTranscript s) (finalTranscript (processResults event s))"
  by (auto simp: processResults_def Let_def split: sum.splits prod.splits
      dest: results_loop_prefix prefix_order.trans)

lemma processResults_live:
  "prefix (finalTranscript s) (liveTranscript s) \<Longrightarrow>
   prefix (finalTranscript (processResults event s)) (liveTranscript (processResults event s))"
  by (simp add: processResults_def Let_def split: sum.splits prod.splits)

lemma event_texts:
  "batch hello_event = results hello_event"
  "batch wor_event = results wor_event"
  "batch world_event = results world_event"
  "batch test_event = results test_event"
  "finalDelta hello_event = js ''hello''" "interimText hello_event = []"
  "finalDelta wor_event = []" "interimText wor_event = js ''wor''"
  "finalDelta world_event = js ''world''" "interimText world_event = []"
  "finalDelta wor_tail_event = []" "interimText wor_tail_event = js '' wor ''"
  "finalDelta b_event = js ''b''" "interimText b_event = []"
  by (simp_all add: finalDelta_def interimText_def batch_def transcript0_def
      hello_event_def wor_event_def world_event_def test_event_def wor_tail_event_def
      b_event_def)

lemma listening_eval:
  "listening = \<lparr>isListening = True, isPaused = False, isSpeaking = False,
      liveTranscript = [], finalTranscript = [], error = None,
      stopReasonRef = Auto,
      stateRef = \<lparr>isListeningNow = True, isPausedNow = False,
                  liveTranscriptNow = [], finalTranscriptNow = []\<rparr>,
      speakingTimeoutPending = False,
      recognition_lang = js ''pt-BR'', engine_calls = [EngineStart]\<rparr>"
  by (simp add: listening_def hook_defs)

lemma scenario_A_eval:
  "scenario_A = \<lparr>isListening = True, isPaused = False, isSpeaking = True,
      liveTranscript = js ''hello'', finalTranscript = js ''hello'', error = None,
      stopReasonRef = Auto,
      stateRef = \<lparr>isListeningNow = True, isPausedNow = False,
                  liveTranscriptNow = js ''hello'', finalTranscriptNow = js ''hello''\<rparr>,
      speakingTimeoutPending = True,
      recognition_lang = js ''en-US'', engine_calls = [EngineStart]\<rparr>"
  by (simp add: scenario_A_def hello_event_def hook_defs results_loop.simps)

lemma mid_sentence_eval:
  "mid_sentence = \<lparr>isListening = True, isPaused = False, isSpeaking = True,
      liveTranscript = js ''hello wor '', finalTranscript = js ''hello'', error = None,
      stopReasonRef = Auto,
      stateRef = \<lparr>isListeningNow = True, isPausedNow = False,
                  liveTranscriptNow = js ''hello wor '', finalTranscriptNow = js ''hello''\<rparr>,
      speakingTimeoutPending = True,
      recognition_lang = js ''en-US'', engine_calls = [EngineStart]\<rparr>"
  by (simp add: mid_sentence_def scenario_A_eval wor_tail_event_def processResults_def
      stateRefEffect_def results_loop.simps js_def)

lemma last_words_eval:
  "last_words = \<lparr>isListening = False, isPaused = False, isSpeaking = True,
      liveTranscript = js ''hello wor '', finalTranscript = js ''hello'', error = None,
      stopReasonRef = User,
      stateRef = \<lparr>isListeningNow = False, isPausedNow = False,
                  liveTranscriptNow = js ''hello'', finalTranscriptNow = js ''hello''\<rparr>,
      speakingTimeoutPending = True,
      recognition_lang = js ''en-US'', engine_calls = [EngineStart, EngineStop]\<rparr>"
  by (simp add: last_words_def scenario_A_eval wor_tail_event_def processResults_def
      stopListening_def stateRefEffect_def results_loop.simps js_def)

lemma blank_said_eval:
  "blank_said = \<lparr>isListening = True, isPaused = False, isSpeaking = True,
      liveTranscript = js '' '', finalTranscript = js '' '', error = None,
      stopReasonRef = Auto,
      stateRef = \<lparr>isListeningNow = True, isPausedNow = False,
                  liveTranscriptNow = js '' '', finalTranscriptNow = js '' ''\<rparr>,
      speakingTimeoutPending = True,
      recognition_lang = js ''pt-BR'', engine_calls = [EngineStart]\<rparr>"
  by (simp add: blank_said_def blank_event_def hook_defs results_loop.simps)

subsection \<open>handleEnd\<close>

text \<open>What the finalizing branch trims is the live transcript \<open>stateRef\<close> holds.\<close>

lemma handleEnd_finalize:
  assumes "stopReasonRef s \<noteq> Auto"
  shows "handleEnd s =
      s\<lparr>isSpeaking := False, speakingTimeoutPending := False,
        finalTranscript := trim (liveTranscriptNow (stateRef s)),
        liveTranscript := trim (liveTranscriptNow (stateRef s))\<rparr>"
  using assms by (simp add: handleEnd_def Let_def)

text \<open>
  With \<open>stateRef\<close> up to date the end that follows \<open>stop()\<close> or \<open>pause()\<close> sets both
  transcripts to the trimmed live transcript, calls nothing on the engine and leaves the
  listening and paused flags alone.
\<close>

lemma handleEnd_finalize_upToDate:
  assumes "upToDate s" and "stopReasonRef s = User \<or> stopReasonRef s = Paused"
  shows "finalTranscript (handleEnd s) = trim (liveTranscript s)
     \<and> liveTranscript (handleEnd s) = trim (liveTranscript s)
     \<and> engine_calls (handleEnd s) = engine_calls s
     \<and> isPaused (handleEnd s) = isPaused s
     \<and> isListening (handleEnd s) = isListening s"
proof -
  from assms(2) have "stopReasonRef s \<noteq> Auto"
    by auto
  from handleEnd_finalize [OF this] assms(1) show ?thesis
    by (simp add: upToDate_def)
qed

lemma handleEnd_twice:
  "handleEnd (handleEnd h) = (handleEnd h)\<lparr>engine_calls := engine_calls (handleEnd (handleEnd h))\<rparr>"
  by (simp add: handleEnd_def Let_def)

lemma handleEnd_rendered_twice:
  assumes "upToDate h"
  shows "handleEnd (stateRefEffect (handleEnd h)) =
      (stateRefEffect (handleEnd h))\<lparr>engine_calls := engine_calls (handleEnd (handleEnd h))\<rparr>"
  using assms by (simp add: handleEnd_def stateRefEffect_def upToDate_def Let_def trim_idem)

subsection \<open>Steps and runs of the hook\<close>

lemma stateRefEffect_cells:
  "isListening (stateRefEffect s) = isListening s"
  "isPaused (stateRefEffect s) = isPaused s"
  "liveTranscript (stateRefEffect s) = liveTranscript s"
  "finalTranscript (stateRefEffect s) = finalTranscript s"
  "stopReasonRef (stateRefEffect s) = stopReasonRef s"
  "engine_calls (stateRefEffect s) = engine_calls s"
  by (simp_all add: stateRefEffect_def)

lemma upToDate_stateRefEffect: "upToDate (stateRefEffect s)"
  by (simp add: upToDate_def stateRefEffect_def)

lemma upToDate_rendered: "upToDate (rendered e s)"
  by (simp add: rendered_def upToDate_stateRefEffect)

lemma hook_step_live:
  assumes "prefix (finalTranscript s) (liveTranscript s)"
  shows "prefix (finalTranscript (hook_step e s)) (liveTranscript (hook_step e s))"
proof (cases e)
  case (OnResult event)
  with assms show ?thesis by (simp add: processResults_live)
next
  case ResumeListening
  with assms show ?thesis by (simp add: resumeListening_def Let_def)
qed (use assms in \<open>simp_all add: startListening_def stopListening_def pauseListening_def
      handleEnd_def onerror_def speakingTimeout_def stateRefEffect_def Let_def\<close>)

lemma run_live:
  "prefix (finalTranscript s) (liveTranscript s) \<Longrightarrow>
   prefix (finalTranscript (run evs s)) (liveTranscript (run evs s))"
  by (induction evs arbitrary: s) (simp_all add: hook_step_live)

lemma hook_step_auto_when_active:
  assumes "auto_when_active s"
  shows "auto_when_active (hook_step e s)"
proof (cases e)
  case (OnResult event)
  with assms show ?thesis by (simp add: auto_when_active_def processResults_flags)
qed (use assms in \<open>auto simp: auto_when_active_def startListening_def stopListening_def
      pauseListening_def resumeListening_def handleEnd_def onerror_def speakingTimeout_def
      stateRefEffect_def Let_def\<close>)

lemma run_auto_when_active: "auto_when_active s \<Longrightarrow> auto_when_active (run evs s)"
  by (induction evs arbitrary: s) (simp_all add: hook_step_auto_when_active)

text \<open>
  When every event is followed by its render, a session that listens unpaused keeps doing
  so through batches, ends and timer expiries, and its final transcript only grows.
\<close>

lemma active_rendered:
  assumes "upToDate s" "stopReasonRef s = Auto" "isListening s" "\<not> isPaused s" "resultOrEnd e"
  shows "stopReasonRef (rendered e s) = Auto \<and> isListening (rendered e s)
     \<and> \<not> isPaused (rendered e s)
     \<and> prefix (finalTranscript s) (finalTranscript (rendered e s))"
proof (cases e)
  case (OnResult event)
  from assms(1) have "prefix (finalTranscript s) (finalTranscriptNow (stateRef s))"
    by (simp add: upToDate_def)
  from processResults_prefix [OF this, of event] OnResult assms show ?thesis
    by (simp add: rendered_def stateRefEffect_def processResults_flags)
next
  case OnEnd
  with assms show ?thesis
    by (simp add: rendered_def stateRefEffect_def handleEnd_def upToDate_def)
next
  case SpeakingTimeout
  with assms show ?thesis
    by (simp add: rendered_def stateRefEffect_def speakingTimeout_def)
qed (use assms in simp_all)

lemma active_rendered_trace:
  assumes "upToDate s" "stopReasonRef s = Auto" "isListening s" "\<not> isPaused s"
    and "list_all resultOrEnd evs"
  shows "list_all (\<lambda>t. length (finalTranscript s) \<le> length (finalTranscript t))
           (rendered_trace evs s)
     \<and> sorted (map (\<lambda>t. length (finalTranscript t)) (rendered_trace evs s))
     \<and> list_all (\<lambda>t. isListening t \<and> \<not> isPaused t) (rendered_trace evs s)"
  using assms
proof (induction evs arbitrary: s)
  case Nil
  then show ?case by simp
next
  case (Cons e evs)
  from Cons.prems have e: "resultOrEnd e" and evs: "list_all resultOrEnd evs"
    by simp_all
  note st = active_rendered [OF Cons.prems(1-4) e]
  from st have le: "length (finalTranscript s) \<le> length (finalTranscript (rendered e s))"
    by (auto dest: prefix_length_le)
  from st Cons.IH [OF upToDate_rendered _ _ _ evs, of e s]
  have ih: "list_all (\<lambda>t. length (finalTranscript (rendered e s)) \<le> length (finalTranscript t))
       (rendered_trace evs (rendered e s))"
    and so: "sorted (map (\<lambda>t. length (finalTranscript t)) (rendered_trace evs (rendered e s)))"
    and act: "list_all (\<lambda>t. isListening t \<and> \<not> isPaused t) (rendered_trace evs (rendered e s))"
    by simp_all
  from ih le have "list_all (\<lambda>t. length (finalTranscript s) \<le> length (finalTranscript t))
       (rendered_trace evs (rendered e s))"
    by (auto simp: list_all_iff)
  with so act Cons.prems(3,4) show ?case
    by (auto simp: list_all_iff)
qed

subsection \<open>Error messages\<close>

lemma errorMessage_cases:
  "errorMessage (js ''no-speech'') =
     Message (js ''Nenhum som foi detectado. Verifique se seu microfone est'' @ [0xE1] @
              js '' funcionando.'')"
  "errorMessage (js ''audio-capture'') =
     Message (js ''Falha ao capturar '' @ [0xE1] @ js ''udio. O microfone est'' @ [0xE1] @
              js '' sendo usado por outro aplicativo?'')"
  "errorMessage (js ''not-allowed'') =
     Message (js ''Permiss'' @ [0xE3] @ js ''o para usar o microfone foi negada ou bloqueada.'')"
  "errorMessage (js ''network'') =
     Message (js ''Ocorreu um erro de rede. Verifique sua conex'' @ [0xE3] @
              js ''o com a internet.'')"
  by (simp_all add: errorMessage_def errorMessages_def js_def)

lemma errorMessage_other:
  "code \<noteq> js ''no-speech'' \<Longrightarrow> code \<noteq> js ''audio-capture'' \<Longrightarrow> code \<noteq> js ''not-allowed'' \<Longrightarrow>
   code \<noteq> js ''network'' \<Longrightarrow> \<not> List.member Object_prototype_names code \<Longrightarrow>
   errorMessage code = Message (js ''Um erro inesperado ocorreu: '' @ code)"
  by (simp add: errorMessage_def errorMessages_def)

text \<open>
  Why the codes that name a member of \<open>Object.prototype\<close> are set apart: for them the
  lookup yields that member, not a message. No such code is among those the Web Speech API
  defines (no-speech, aborted, audio-capture, network, not-allowed, service-not-allowed,
  bad-grammar, language-not-supported).
\<close>

lemma onerror_inherited_member:
  "error (onerror (js ''constructor'') s) = Some (InheritedMember (js ''constructor''))"
  by (simp add: onerror_def errorMessage_def errorMessages_def Object_prototype_names_def js_def)

subsection \<open>The history-save effect\<close>

lemma hook_saveEffect: "hook (saveEffect c s) = hook s"
  by (simp add: saveEffect_def Let_def)

lemma history_saveEffect:
  "history (saveEffect c s) =
     (if setsHistory s
      then \<lparr>id' = Date_now c, date = toLocaleString c,
            content = trim (finalTranscript (hook s))\<rparr> # history s
      else history s)"
  by (simp add: saveEffect_def setsHistory_def Let_def)

lemma isAlreadySaved_Cons:
  "isAlreadySaved t (item # h) = (trim (content item) = t \<or> isAlreadySaved t h)"
  by (simp add: isAlreadySaved_def)

lemma saved_after_saveEffect:
  "\<not> isListening (hook s) \<Longrightarrow> trim (finalTranscript (hook s)) \<noteq> [] \<Longrightarrow>
   isAlreadySaved (trim (finalTranscript (hook s))) (history (saveEffect c s))"
  by (auto simp: history_saveEffect isAlreadySaved_Cons trim_idem setsHistory_def trim_Nil)

lemma not_setsHistory_saveEffect: "\<not> setsHistory (saveEffect c s)"
proof (cases "\<not> isListening (hook s) \<and> trim (finalTranscript (hook s)) \<noteq> []")
  case True
  then show ?thesis
    using saved_after_saveEffect [of s c] by (simp add: setsHistory_def hook_saveEffect)
next
  case False
  then show ?thesis
    by (auto simp: setsHistory_def hook_saveEffect)
qed

text \<open>The second run of the effect, when there is one, changes nothing.\<close>

lemma settle_eq: "settle c s = saveEffect c s"
proof (cases "setsHistory s")
  case False
  then show ?thesis by (simp add: settle.simps)
next
  case True
  have "settle c s = settle c (saveEffect c s)"
    using True by (subst settle.simps) simp
  also have "\<dots> = saveEffect c (saveEffect c s)"
    using not_setsHistory_saveEffect [of c s] by (subst settle.simps) simp
  also have "\<dots> = saveEffect c s"
    using not_setsHistory_saveEffect [of c s] True
    by (simp add: saveEffect_def [of c "saveEffect c s"] hook_saveEffect setsHistory_def Let_def)
       (simp add: saveEffect_def setsHistory_def Let_def)
  finally show ?thesis .
qed

lemma hook_settle: "hook (settle c s) = hook s"
  by (simp add: settle_eq hook_saveEffect)

lemma hook_onend:
  "hook (app_step c Recognition_onend s) = stateRefEffect (handleEnd (hook s))"
  by (simp add: app_step_def Let_def hook_settle)

lemma stopping_eval:
  "stopping =
     \<lparr>hook = \<lparr>isListening = False, isPaused = False, isSpeaking = True,
        liveTranscript = js ''test'', finalTranscript = js ''test'', error = None,
        stopReasonRef = User,
        stateRef = \<lparr>isListeningNow = False, isPausedNow = False,
                    liveTranscriptNow = js ''test'', finalTranscriptNow = js ''test''\<rparr>,
        speakingTimeoutPending = True,
        recognition_lang = js ''pt-BR'', engine_calls = [EngineStart, EngineStop]\<rparr>,
      finalContent = js ''test'',
      history = [\<lparr>id' = 1000, date = js ''03/11/2026, 10:00:01'', content = js ''test''\<rparr>],
      selectedLang = js ''pt-BR''\<rparr>"
  by (simp add: stopping_def app_initial_def clock1_def test_event_def app_step_def
      handleStartStop_def hook_defs results_loop.simps settle_eq saveEffect_def
      isAlreadySaved_def trim_def isWhiteSpace_def js_def Let_def)

lemma scenario_C_eval:
  "scenario_C =
     \<lparr>hook = \<lparr>isListening = False, isPaused = False, isSpeaking = False,
        liveTranscript = js ''test'', finalTranscript = js ''test'', error = None,
        stopReasonRef = User,
        stateRef = \<lparr>isListeningNow = False, isPausedNow = False,
                    liveTranscriptNow = js ''test'', finalTranscriptNow = js ''test''\<rparr>,
        speakingTimeoutPending = False,
        recognition_lang = js ''pt-BR'', engine_calls = [EngineStart, EngineStop]\<rparr>,
      finalContent = js ''test'',
      history = [\<lparr>id' = 1000, date = js ''03/11/2026, 10:00:01'', content = js ''test''\<rparr>],
      selectedLang = js ''pt-BR''\<rparr>"
  by (simp add: scenario_C_def stopping_eval app_step_def handleEnd_def stateRefEffect_def
      trim_examples Let_def)

section \<open>Automatic restart after a spontaneous end\<close>

text \<open>
  C1, as stated, does not hold: the first statement of \<open>handleEnd\<close> clears the speaking
  indicator, which the hook returns to its caller. In Scenario A the indicator is set by
  the batch carrying "hello" and is clear after the spontaneous end.
\<close>

theorem handleEnd_auto_restart_changes_speaking:
  "stopReasonRef scenario_A = Auto \<and> isListening scenario_A \<and> \<not> isPaused scenario_A \<and>
   isListeningNow (stateRef scenario_A) \<and> \<not> isPausedNow (stateRef scenario_A) \<and>
   isSpeaking scenario_A \<and> \<not> isSpeaking (handleEnd scenario_A)"
  by (simp add: scenario_A_eval handleEnd_def)

text \<open>
  C1, amended: when the engine ends while the stop reason is \<open>Auto\<close> and the session is
  listening and not paused in the state \<open>stateRef\<close> holds (the state \<open>handleEnd\<close> reads;
  it is the session's own once the render's effect has run), \<open>handleEnd\<close> calls
  \<open>start\<close> on the engine once more, clears the speaking indicator and its timer, and
  changes nothing else: the final and the live transcript, the listening and paused flags,
  the error, the stop reason and \<open>stateRef\<close> are what they were.
\<close>

theorem handleEnd_auto_restart:
  assumes "stopReasonRef s = Auto" and "isListeningNow (stateRef s)"
    and "\<not> isPausedNow (stateRef s)"
  shows "handleEnd s = s\<lparr>isSpeaking := False, speakingTimeoutPending := False,
                          engine_calls := engine_calls s @ [EngineStart]\<rparr>
     \<and> engine_calls (handleEnd s) = engine_calls s @ [EngineStart]
     \<and> finalTranscript (handleEnd s) = finalTranscript s
     \<and> liveTranscript (handleEnd s) = liveTranscript s
     \<and> isListening (handleEnd s) = isListening s
     \<and> isPaused (handleEnd s) = isPaused s
     \<and> stopReasonRef (handleEnd s) = Auto
     \<and> error (handleEnd s) = error s
     \<and> stateRef (handleEnd s) = stateRef s
     \<and> \<not> isSpeaking (handleEnd s)"
  using assms by (simp add: handleEnd_def)

text \<open>
  Scenario A: after \<open>start("en-US")\<close> and one final slot "hello" at index 0, the final
  transcript is "hello" before and after the spontaneous end, the session still listens
  unpaused, and the engine has been started twice.
\<close>

theorem handleEnd_auto_restart_witness:
  "stopReasonRef scenario_A = Auto \<and> isListeningNow (stateRef scenario_A)
   \<and> \<not> isPausedNow (stateRef scenario_A)
   \<and> isListening scenario_A \<and> \<not> isPaused scenario_A
   \<and> finalTranscript scenario_A = js ''hello''
   \<and> finalTranscript (handleEnd scenario_A) = js ''hello''
   \<and> liveTranscript (handleEnd scenario_A) = js ''hello''
   \<and> isListening (handleEnd scenario_A) \<and> \<not> isPaused (handleEnd scenario_A)
   \<and> engine_calls (handleEnd scenario_A) = [EngineStart, EngineStart]"
proof -
  have a: "stopReasonRef scenario_A = Auto" and b: "isListeningNow (stateRef scenario_A)"
    and c: "\<not> isPausedNow (stateRef scenario_A)"
    by (simp_all add: scenario_A_eval)
  show ?thesis
    using handleEnd_auto_restart [OF a b c] a b c by (simp add: scenario_A_eval)
qed

section \<open>Assembling a batch\<close>

text \<open>
  C2 fails on the code when two batches arrive with no render between them. The comments
  of lines 81 and 96 say that \<open>stateRef\<close> holds the latest final transcript, but the
  first batch's \<open>setFinalTranscript\<close> reaches it only through the effect of lines 83-85.
  In a session just started, a batch with the final slot "aaaaaaaaaa" makes that the final
  transcript; the next batch, with the final slot "b" at index 1, is added to the empty
  text \<open>stateRef\<close> still holds, and the final and live transcript become "b", not
  "aaaaaaaaaab".
\<close>

theorem processResults_builds_on_stale_final:
  "finalTranscript (run [OnResult ten_event] listening) = js ''aaaaaaaaaa''
   \<and> finalTranscriptNow (stateRef (run [OnResult ten_event] listening)) = []
   \<and> finalDelta b_event = js ''b''
   \<and> finalTranscript (run [OnResult ten_event, OnResult b_event] listening) = js ''b''
   \<and> liveTranscript (run [OnResult ten_event, OnResult b_event] listening) = js ''b''"
proof -
  have "finalDelta b_event = js ''b''"
    by (simp add: event_texts)
  then show ?thesis
    by (simp add: listening_eval ten_event_def b_event_def processResults_def
        results_loop.simps)
qed

section \<open>Finalizing after a stop or a pause\<close>

text \<open>
  C3 fails on the code when the engine's last batch and its end arrive with no render
  between them, for the same reason as C2: \<open>handleEnd\<close> trims the live transcript
  \<open>stateRef\<close> holds (line 120), which the batch's \<open>setLiveTranscript\<close> has not
  reached. After Scenario A, \<open>stop()\<close> and its render, the batch that brings the live
  transcript to "hello wor " is followed by the end: both transcripts become "hello", not
  "hello wor", and the last words are lost.
\<close>

theorem handleEnd_trims_stale_live:
  "stopReasonRef last_words = User
   \<and> liveTranscript last_words = js ''hello wor ''
   \<and> trim (liveTranscript last_words) = js ''hello wor''
   \<and> finalTranscript (handleEnd last_words) = js ''hello''
   \<and> liveTranscript (handleEnd last_words) = js ''hello''"
  by (simp add: last_words_eval handleEnd_def trim_examples Let_def)

section \<open>Pause and resume\<close>

text \<open>
  C4, as stated, does not hold: \<open>resume()\<close> writes the transcripts only when the trimmed
  live transcript is not empty (the guard of line 206), so when it is empty the final
  transcript stays as it is, blanks included. In a session whose only final slot is a
  blank, \<open>pause()\<close>, \<open>resume()\<close> and the final slot "world", each followed by its
  render, give the live transcript " world", with a leading blank.
\<close>

theorem resume_keeps_blank_final:
  "trim (liveTranscript blank_said) = []
   \<and> liveTranscript
       (run [PauseListening, StateRefEffect, ResumeListening, StateRefEffect,
             OnResult world_event] blank_said) = js '' world''"
proof -
  have "trim (liveTranscript blank_said) = []"
    by (simp add: blank_said_eval trim_examples)
  moreover have "run [PauseListening, StateRefEffect, ResumeListening, StateRefEffect] blank_said =
      blank_said\<lparr>isPaused := False,
        stateRef := (stateRef blank_said)\<lparr>isPausedNow := False\<rparr>,
        engine_calls := [EngineStart, EngineStop, EngineStart]\<rparr>"
    by (simp add: blank_said_eval pauseListening_def resumeListening_def stateRefEffect_def
        trim_examples Let_def)
  then have "run [PauseListening, StateRefEffect, ResumeListening, StateRefEffect,
             OnResult world_event] blank_said =
      processResults world_event (blank_said\<lparr>isPaused := False,
        stateRef := (stateRef blank_said)\<lparr>isPausedNow := False\<rparr>,
        engine_calls := [EngineStart, EngineStop, EngineStart]\<rparr>)"
    by simp
  then have "liveTranscript (run [PauseListening, StateRefEffect, ResumeListening,
             StateRefEffect, OnResult world_event] blank_said) = js '' '' @ js ''world''"
    by (simp add: blank_said_eval world_event_def processResults_def results_loop.simps)
  ultimately show ?thesis
    by (simp add: js_def)
qed

text \<open>
  C4, amended: let every step be followed by its render. For every pre-pause state,
  \<open>pause()\<close>, \<open>resume()\<close> and a batch (its slots from \<open>resultIndex\<close> on carrying an
  alternative) give the live transcript made of the trimmed pre-pause live transcript, one
  space and the speech of the batch when the trimmed text is not empty; the trimmed text
  does not end in white space, so the space is the only one at the seam. When the trimmed
  text is empty they give the pre-pause final transcript followed by the speech; and they
  give the speech alone, with nothing before it, when the engine's end has come between
  \<open>pause()\<close> and \<open>resume()\<close>. \<open>resume()\<close> sets the stop reason to \<open>Auto\<close> and
  clears the paused flag.
\<close>

theorem resume_round_trip:
  assumes "list_all (\<lambda>r. alternatives r \<noteq> []) (batch event)"
  shows "liveTranscript (processResults event
            (rendered ResumeListening (rendered PauseListening s))) =
       (if trim (liveTranscript s) = []
        then finalTranscript s @ finalDelta event @ interimText event
        else trim (liveTranscript s) @ js '' '' @ finalDelta event @ interimText event)
     \<and> liveTranscript (processResults event
            (rendered ResumeListening (rendered OnEnd (rendered PauseListening s)))) =
       (if trim (liveTranscript s) = [] then finalDelta event @ interimText event
        else trim (liveTranscript s) @ js '' '' @ finalDelta event @ interimText event)
     \<and> (trim (liveTranscript s) \<noteq> [] \<longrightarrow> \<not> isWhiteSpace (last (trim (liveTranscript s))))
     \<and> stopReasonRef (rendered ResumeListening (rendered PauseListening s)) = Auto
     \<and> \<not> isPaused (rendered ResumeListening (rendered PauseListening s))
     \<and> stopReasonRef
         (rendered ResumeListening (rendered OnEnd (rendered PauseListening s))) = Auto
     \<and> \<not> isPaused (rendered ResumeListening (rendered OnEnd (rendered PauseListening s)))"
proof -
  let ?t = "trim (liveTranscript s)"
  let ?direct = "rendered ResumeListening (rendered PauseListening s)"
  let ?ended = "rendered ResumeListening (rendered OnEnd (rendered PauseListening s))"
  have fin1: "finalTranscriptNow (stateRef ?direct) =
      (if ?t = [] then finalTranscript s else ?t @ js '' '')"
    by (simp add: rendered_def resumeListening_def pauseListening_def stateRefEffect_def Let_def)
  have fin2: "finalTranscriptNow (stateRef ?ended) = (if ?t = [] then [] else ?t @ js '' '')"
    by (simp add: rendered_def resumeListening_def handleEnd_def pauseListening_def
        stateRefEffect_def Let_def trim_idem)
  have flags: "stopReasonRef ?direct = Auto \<and> \<not> isPaused ?direct
     \<and> stopReasonRef ?ended = Auto \<and> \<not> isPaused ?ended"
    by (simp add: rendered_def resumeListening_def stateRefEffect_def Let_def)
  note live = processResults_texts(2) [OF assms]
  show ?thesis
    using live [of ?direct] live [of ?ended] flags last_trim [of "liveTranscript s"]
    by (simp add: fin1 fin2)
qed

text \<open>
  Paused in mid-sentence at "hello wor " and resumed, the final slot "world" gives
  "hello wor world", whether or not the engine's end comes before \<open>resume()\<close>; paused
  right after \<open>start()\<close> and resumed, it gives "world".
\<close>

theorem resume_round_trip_witness:
  "list_all (\<lambda>r. alternatives r \<noteq> []) (batch world_event)
   \<and> trim (liveTranscript mid_sentence) \<noteq> []
   \<and> liveTranscript (processResults world_event
        (rendered ResumeListening (rendered PauseListening mid_sentence))) =
       js ''hello wor world''
   \<and> liveTranscript (processResults world_event
        (rendered ResumeListening (rendered OnEnd (rendered PauseListening mid_sentence)))) =
       js ''hello wor world''
   \<and> trim (liveTranscript listening) = []
   \<and> liveTranscript (processResults world_event
        (rendered ResumeListening (rendered OnEnd (rendered PauseListening listening)))) =
       js ''world''"
proof -
  have a: "list_all (\<lambda>r. alternatives r \<noteq> []) (batch world_event)"
    by (simp add: event_texts) (simp add: world_event_def)
  have b: "trim (liveTranscript mid_sentence) = js ''hello wor''"
    by (simp add: mid_sentence_eval trim_examples)
  have c: "trim (liveTranscript listening) = []"
    by (simp add: listening_eval trim_Nil)
  have d: "js ''hello wor'' \<noteq> []"
    by (simp add: js_def)
  show ?thesis
    using resume_round_trip [OF a, of mid_sentence] resume_round_trip [OF a, of listening] a d
    by (simp add: b c event_texts) (simp add: js_def)
qed

section \<open>Engine errors\<close>

text \<open>
  C5: the error code "aborted" changes nothing at all. Every other code sets the stop
  reason to \<open>User\<close>, clears the listening, paused and speaking flags, leaves both
  transcripts alone and makes no call on the engine, nor does the end that follows it.
  The error becomes the message of the table for the four codes the table names
  ("not-allowed" gives the message about the denied microphone permission), and the
  message "Um erro inesperado ocorreu: " followed by the code for every other code that
  is not the name of a member of \<open>Object.prototype\<close>.
\<close>

theorem onerror_policy:
  "onerror (js ''aborted'') s = s
   \<and> (code \<noteq> js ''aborted'' \<longrightarrow>
        stopReasonRef (onerror code s) = User
        \<and> \<not> isListening (onerror code s)
        \<and> \<not> isPaused (onerror code s)
        \<and> \<not> isSpeaking (onerror code s)
        \<and> finalTranscript (onerror code s) = finalTranscript s
        \<and> liveTranscript (onerror code s) = liveTranscript s
        \<and> engine_calls (onerror code s) = engine_calls s
        \<and> engine_calls (handleEnd (onerror code s)) = engine_calls s)
   \<and> error (onerror (js ''not-allowed'') s) =
        Some (Message (js ''Permiss'' @ [0xE3] @
                       js ''o para usar o microfone foi negada ou bloqueada.''))
   \<and> error (onerror (js ''no-speech'') s) =
        Some (Message (js ''Nenhum som foi detectado. Verifique se seu microfone est'' @
                       [0xE1] @ js '' funcionando.''))
   \<and> error (onerror (js ''audio-capture'') s) =
        Some (Message (js ''Falha ao capturar '' @ [0xE1] @ js ''udio. O microfone est'' @
                       [0xE1] @ js '' sendo usado por outro aplicativo?''))
   \<and> error (onerror (js ''network'') s) =
        Some (Message (js ''Ocorreu um erro de rede. Verifique sua conex'' @ [0xE3] @
                       js ''o com a internet.''))
   \<and> (code \<noteq> js ''aborted'' \<and> code \<noteq> js ''no-speech'' \<and> code \<noteq> js ''audio-capture'' \<and>
        code \<noteq> js ''not-allowed'' \<and> code \<noteq> js ''network'' \<and>
        \<not> List.member Object_prototype_names code \<longrightarrow>
        error (onerror code s) = Some (Message (js ''Um erro inesperado ocorreu: '' @ code)))"
proof -
  have known: "js ''not-allowed'' \<noteq> js ''aborted''" "js ''no-speech'' \<noteq> js ''aborted''"
    "js ''audio-capture'' \<noteq> js ''aborted''" "js ''network'' \<noteq> js ''aborted''"
    by (simp_all add: js_def)
  have set_error: "error (onerror c s) = Some (errorMessage c)" if "c \<noteq> js ''aborted''" for c
    using that by (simp add: onerror_def)
  show ?thesis
    using errorMessage_other [of code] set_error [of code]
    by (simp add: set_error known errorMessage_cases)
       (simp add: onerror_def handleEnd_def Let_def)
qed

text \<open>
  Scenario D and Scenario E: "not-allowed" in the middle of Scenario A halts the session
  with the permission message; "service-not-allowed", which the table does not name,
  gives the fallback message; "aborted" after \<open>stop()\<close> leaves the state as
  \<open>stop()\<close> left it.
\<close>

theorem onerror_policy_witness:
  "js ''not-allowed'' \<noteq> js ''aborted''
   \<and> error (onerror (js ''not-allowed'') scenario_A) =
       Some (Message (js ''Permiss'' @ [0xE3] @
                      js ''o para usar o microfone foi negada ou bloqueada.''))
   \<and> \<not> isListening (onerror (js ''not-allowed'') scenario_A)
   \<and> engine_calls (handleEnd (onerror (js ''not-allowed'') scenario_A)) = [EngineStart]
   \<and> js ''service-not-allowed'' \<noteq> js ''aborted''
   \<and> \<not> List.member Object_prototype_names (js ''service-not-allowed'')
   \<and> error (onerror (js ''service-not-allowed'') scenario_A) =
       Some (Message (js ''Um erro inesperado ocorreu: service-not-allowed''))
   \<and> onerror (js ''aborted'') (stopListening scenario_A) = stopListening scenario_A"
proof -
  have a: "js ''not-allowed'' \<noteq> js ''aborted''"
    and b: "js ''service-not-allowed'' \<noteq> js ''aborted''"
    by (simp_all add: js_def)
  have c: "\<not> List.member Object_prototype_names (js ''service-not-allowed'')"
    by (simp add: Object_prototype_names_def js_def)
  have d: "js ''service-not-allowed'' \<noteq> js ''no-speech''"
    "js ''service-not-allowed'' \<noteq> js ''audio-capture''"
    "js ''service-not-allowed'' \<noteq> js ''not-allowed''"
    "js ''service-not-allowed'' \<noteq> js ''network''"
    by (simp_all add: js_def)
  have e: "engine_calls scenario_A = [EngineStart]"
    by (simp add: scenario_A_eval)
  show ?thesis
    using onerror_policy [of scenario_A "js ''not-allowed''"]
      onerror_policy [of scenario_A "js ''service-not-allowed''"]
      onerror_policy [of "stopListening scenario_A" "js ''aborted''"] a b c d e
    by (simp add: js_def)
qed

section \<open>Saving to the history\<close>

text \<open>
  C6: for every history list and every final transcript, a second run of the save after
  the first leaves the history as the first left it, with the same content or, when the
  session is not listening, with any content that trims to the same; so two saves never
  add two entries with equal trimmed content: a history whose trimmed contents are
  pairwise different keeps that property, and a history with no entry of that trimmed
  content has at most one afterwards. The save leaves the history alone when the trimmed
  content is empty and when an entry already has that trimmed content; otherwise, when
  the session is not listening, it puts the new entry, holding the trimmed content, in
  front of the list.
\<close>

theorem history_save_dedup:
  "history (saveEffect c2 (saveEffect c1 s)) = history (saveEffect c1 s)
   \<and> (\<not> isListening (hook s) \<and> trim (finalTranscript h') = trim (finalTranscript (hook s)) \<longrightarrow>
        history (saveEffect c2 ((saveEffect c1 s)\<lparr>hook := h'\<rparr>)) = history (saveEffect c1 s))
   \<and> (distinct (map (\<lambda>item. trim (content item)) (history s)) \<longrightarrow>
        distinct (map (\<lambda>item. trim (content item)) (history (saveEffect c2 (saveEffect c1 s)))))
   \<and> (matching (trim (finalTranscript (hook s))) (history s) = [] \<longrightarrow>
        length (matching (trim (finalTranscript (hook s)))
                  (history (saveEffect c2 (saveEffect c1 s)))) \<le> 1)
   \<and> (trim (finalTranscript (hook s)) = [] \<longrightarrow> history (saveEffect c1 s) = history s)
   \<and> (isAlreadySaved (trim (finalTranscript (hook s))) (history s) \<longrightarrow>
        history (saveEffect c1 s) = history s)
   \<and> (\<not> isListening (hook s) \<and> trim (finalTranscript (hook s)) \<noteq> [] \<and>
        \<not> isAlreadySaved (trim (finalTranscript (hook s))) (history s) \<longrightarrow>
        history (saveEffect c1 s) =
          \<lparr>id' = Date_now c1, date = toLocaleString c1,
           content = trim (finalTranscript (hook s))\<rparr> # history s)"
proof -
  have twice: "history (saveEffect c2 (saveEffect c1 s)) = history (saveEffect c1 s)"
    using not_setsHistory_saveEffect [of c1 s] by (simp add: history_saveEffect [of c2])
  have other: "history (saveEffect c2 ((saveEffect c1 s)\<lparr>hook := h'\<rparr>)) = history (saveEffect c1 s)"
    if "\<not> isListening (hook s)" "trim (finalTranscript h') = trim (finalTranscript (hook s))"
  proof (cases "trim (finalTranscript (hook s)) = []")
    case True
    with that show ?thesis
      by (simp add: history_saveEffect [of c2] setsHistory_def)
  next
    case False
    with that saved_after_saveEffect [of s c1] show ?thesis
      by (simp add: history_saveEffect [of c2] setsHistory_def)
  qed
  have dist: "distinct (map (\<lambda>item. trim (content item)) (history (saveEffect c1 s)))"
    if "distinct (map (\<lambda>item. trim (content item)) (history s))"
    using that
    by (auto simp: history_saveEffect setsHistory_def isAlreadySaved_def list_ex_iff trim_idem)
  have count: "length (matching (trim (finalTranscript (hook s))) (history (saveEffect c1 s))) \<le> 1"
    if "matching (trim (finalTranscript (hook s))) (history s) = []"
    using that by (simp add: history_saveEffect matching_def)
  have noop1: "history (saveEffect c1 s) = history s" if "trim (finalTranscript (hook s)) = []"
    using that by (simp add: history_saveEffect setsHistory_def)
  have noop2: "history (saveEffect c1 s) = history s"
    if "isAlreadySaved (trim (finalTranscript (hook s))) (history s)"
    using that by (simp add: history_saveEffect setsHistory_def)
  have add: "history (saveEffect c1 s) =
          \<lparr>id' = Date_now c1, date = toLocaleString c1,
           content = trim (finalTranscript (hook s))\<rparr> # history s"
    if "\<not> isListening (hook s)" "trim (finalTranscript (hook s)) \<noteq> []"
       "\<not> isAlreadySaved (trim (finalTranscript (hook s))) (history s)"
    using that by (auto simp: history_saveEffect setsHistory_def trim_Nil)
  show ?thesis
    using other dist count noop1 noop2 add by (simp add: twice)
qed

text \<open>
  With the history emptied at the end of Scenario C, the save puts "test" in front, and a
  second save, also one with the content " test ", adds nothing; with nothing said
  (\<open>app_initial\<close>) and with "test" in the history already (Scenario C) the save leaves
  the history alone.
\<close>

theorem history_save_dedup_witness:
  "\<not> isListening (hook (handleClearHistory scenario_C))
   \<and> trim (finalTranscript ((hook scenario_C)\<lparr>finalTranscript := js '' test ''\<rparr>)) =
       trim (finalTranscript (hook (handleClearHistory scenario_C)))
   \<and> distinct (map (\<lambda>item. trim (content item)) (history (handleClearHistory scenario_C)))
   \<and> matching (trim (finalTranscript (hook (handleClearHistory scenario_C))))
       (history (handleClearHistory scenario_C)) = []
   \<and> trim (finalTranscript (hook (handleClearHistory scenario_C))) \<noteq> []
   \<and> history (saveEffect clock2 (handleClearHistory scenario_C)) =
       [\<lparr>id' = 2000, date = js ''03/11/2026, 10:00:02'', content = js ''test''\<rparr>]
   \<and> history (saveEffect clock1 (saveEffect clock2 (handleClearHistory scenario_C))) =
       [\<lparr>id' = 2000, date = js ''03/11/2026, 10:00:02'', content = js ''test''\<rparr>]
   \<and> history (saveEffect clock1 ((saveEffect clock2 (handleClearHistory scenario_C))
         \<lparr>hook := (hook scenario_C)\<lparr>finalTranscript := js '' test ''\<rparr>\<rparr>)) =
       [\<lparr>id' = 2000, date = js ''03/11/2026, 10:00:02'', content = js ''test''\<rparr>]
   \<and> trim (finalTranscript (hook app_initial)) = []
   \<and> history (saveEffect clock1 app_initial) = []
   \<and> isAlreadySaved (trim (finalTranscript (hook scenario_C))) (history scenario_C)
   \<and> history (saveEffect clock2 scenario_C) = history scenario_C"
proof -
  let ?s = "handleClearHistory scenario_C"
  let ?h = "(hook scenario_C)\<lparr>finalTranscript := js '' test ''\<rparr>"
  have cleared: "hook ?s = hook scenario_C" "history ?s = []"
    by (simp_all add: handleClearHistory_def)
  have ft: "finalTranscript (hook scenario_C) = js ''test''" "\<not> isListening (hook scenario_C)"
    by (simp_all add: scenario_C_eval)
  have ne: "js ''test'' \<noteq> []"
    by (simp add: js_def)
  have saved: "isAlreadySaved (js ''test'') (history scenario_C)"
    by (simp add: scenario_C_eval isAlreadySaved_def trim_examples)
  have init: "finalTranscript (hook app_initial) = []" "history app_initial = []"
    by (simp_all add: app_initial_def initial_def)
  have fresh: "\<not> isAlreadySaved (js ''test'') []"
    by (simp add: isAlreadySaved_def)
  show ?thesis
    using history_save_dedup [of clock1 clock2 ?s ?h]
      history_save_dedup [of clock1 clock1 app_initial "hook app_initial"]
      history_save_dedup [of clock2 clock2 scenario_C "hook scenario_C"]
    by (simp add: cleared ft ne saved fresh init trim_examples trim_Nil matching_def clock2_def)
qed

section \<open>Invariants of the transcripts\<close>

text \<open>
  C7 fails on the code, for the same reason as C2: a batch is added to the final
  transcript \<open>stateRef\<close> holds, and with no render between two batches that is not the
  text the first batch produced, though the comments of lines 81 and 96 say it is the
  latest. In a session just started, which listens unpaused throughout, a batch with the
  final slot "aaaaaaaaaa" and then a batch with the final slot "b" at index 1 make the
  lengths of the final transcript 0, 10, 1.
\<close>

theorem finalTranscript_shrinks:
  "map (\<lambda>t. length (finalTranscript t))
       (trace [OnResult ten_event, OnResult b_event] listening) = [0, 10, 1]
   \<and> list_all (\<lambda>t. isListening t \<and> \<not> isPaused t)
       (trace [OnResult ten_event, OnResult b_event] listening)
   \<and> resultIndex ten_event < resultIndex b_event"
  by (simp add: listening_eval ten_event_def b_event_def processResults_def
      results_loop.simps js_def)

text \<open>
  What does hold: from any state the hook can be in in which the session listens
  unpaused and \<open>stateRef\<close> is up to date, through every sequence of batches, spontaneous
  ends and timer expiries, each followed by its render, the session keeps listening
  unpaused and the length of the final transcript never decreases.
\<close>

lemma finalTranscript_monotone_when_rendered:
  assumes "upToDate (run pre initial)"
    and "isListening (run pre initial)" and "\<not> isPaused (run pre initial)"
    and "list_all resultOrEnd evs"
  shows "sorted (map (\<lambda>t. length (finalTranscript t)) (rendered_trace evs (run pre initial)))
     \<and> list_all (\<lambda>t. isListening t \<and> \<not> isPaused t) (rendered_trace evs (run pre initial))"
proof -
  have "auto_when_active (run pre initial)"
    by (rule run_auto_when_active) (simp add: auto_when_active_def initial_def)
  with assms(2,3) have "stopReasonRef (run pre initial) = Auto"
    by (simp add: auto_when_active_def)
  from active_rendered_trace [OF assms(1) this assms(2-4)] show ?thesis
    by simp
qed

text \<open>
  C8: in every state the hook reaches from its initial state by any sequence of
  operations (start, stop, pause, resume), events (result batches, ends, errors, timer
  expiries) and refreshes of \<open>stateRef\<close>, the live transcript starts with the final
  transcript. No state is excepted; the states right after a pause or a resume satisfy it
  as well, and so do those reached while \<open>stateRef\<close> lags behind.
\<close>

theorem live_starts_with_final:
  "prefix (finalTranscript (run evs initial)) (liveTranscript (run evs initial))"
proof -
  have "prefix (finalTranscript initial) (liveTranscript initial)"
    by (simp add: initial_def)
  then show ?thesis
    by (rule run_live)
qed

text \<open>
  A session paused in mid-sentence and resumed, every step followed by its render: both
  transcripts are "hello wor " right after \<open>resume()\<close>.
\<close>

theorem live_starts_with_final_witness:
  "prefix
     (finalTranscript (run [StartListening (Some (js ''en-US'')), StateRefEffect,
        OnResult hello_event, StateRefEffect, OnResult wor_tail_event, StateRefEffect,
        PauseListening, StateRefEffect, OnEnd, StateRefEffect, ResumeListening] initial))
     (liveTranscript (run [StartListening (Some (js ''en-US'')), StateRefEffect,
        OnResult hello_event, StateRefEffect, OnResult wor_tail_event, StateRefEffect,
        PauseListening, StateRefEffect, OnEnd, StateRefEffect, ResumeListening] initial))
   \<and> finalTranscript (run [StartListening (Some (js ''en-US'')), StateRefEffect,
        OnResult hello_event, StateRefEffect, OnResult wor_tail_event, StateRefEffect,
        PauseListening, StateRefEffect, OnEnd, StateRefEffect, ResumeListening] initial) =
       js ''hello wor ''"
proof -
  have "run [StartListening (Some (js ''en-US'')), StateRefEffect,
        OnResult hello_event, StateRefEffect, OnResult wor_tail_event, StateRefEffect,
        PauseListening, StateRefEffect, OnEnd, StateRefEffect, ResumeListening] initial =
      resumeListening (stateRefEffect (handleEnd (stateRefEffect (pauseListening mid_sentence))))"
    by (simp add: mid_sentence_def scenario_A_def)
  moreover have "finalTranscript
      (resumeListening (stateRefEffect (handleEnd (stateRefEffect (pauseListening mid_sentence))))) =
      js ''hello wor ''"
    by (simp add: mid_sentence_eval resumeListening_def handleEnd_def pauseListening_def
        stateRefEffect_def trim_examples Let_def) (simp add: js_def)
  ultimately show ?thesis
    using live_starts_with_final [of "[StartListening (Some (js ''en-US'')), StateRefEffect,
        OnResult hello_event, StateRefEffect, OnResult wor_tail_event, StateRefEffect,
        PauseListening, StateRefEffect, OnEnd, StateRefEffect, ResumeListening]"]
    by simp
qed

section \<open>The end delivered twice\<close>

text \<open>
  C9: for every state of the application in which \<open>stateRef\<close> is up to date (every
  state an event and its render leave is), when the engine's end is delivered twice in a
  row, the second delivery leaves the final transcript, the live transcript, the history
  and the editable document as the first left them, and every other field of the hook
  too, but for the log of engine calls (a session that restarts automatically restarts at
  each end). In particular it adds no history entry. The same holds, for every state of
  the application, when no render comes between or after the two deliveries.
\<close>

theorem second_end_is_noop:
  "(upToDate (hook s) \<longrightarrow>
      app_step c2 Recognition_onend (app_step c1 Recognition_onend s) =
        (app_step c1 Recognition_onend s)
          \<lparr>hook := (hook (app_step c1 Recognition_onend s))
             \<lparr>engine_calls := engine_calls (handleEnd (handleEnd (hook s)))\<rparr>\<rparr>
      \<and> history (app_step c2 Recognition_onend (app_step c1 Recognition_onend s)) =
          history (app_step c1 Recognition_onend s)
      \<and> finalTranscript (hook (app_step c2 Recognition_onend (app_step c1 Recognition_onend s))) =
          finalTranscript (hook (app_step c1 Recognition_onend s))
      \<and> liveTranscript (hook (app_step c2 Recognition_onend (app_step c1 Recognition_onend s))) =
          liveTranscript (hook (app_step c1 Recognition_onend s))
      \<and> finalContent (app_step c2 Recognition_onend (app_step c1 Recognition_onend s)) =
          finalContent (app_step c1 Recognition_onend s))
   \<and> app_handler Recognition_onend (app_handler Recognition_onend s') =
       (app_handler Recognition_onend s')
         \<lparr>hook := (hook (app_handler Recognition_onend s'))
            \<lparr>engine_calls := engine_calls (handleEnd (handleEnd (hook s')))\<rparr>\<rparr>"
proof -
  let ?s1 = "app_step c1 Recognition_onend s"
  have h1: "hook ?s1 = stateRefEffect (handleEnd (hook s))"
    by (rule hook_onend)
  have rendered_case: "app_step c2 Recognition_onend ?s1 =
        ?s1\<lparr>hook := (hook ?s1)\<lparr>engine_calls := engine_calls (handleEnd (handleEnd (hook s)))\<rparr>\<rparr>"
    if up: "upToDate (hook s)"
  proof -
    note again = handleEnd_rendered_twice [OF up]
    have same: "isListening (handleEnd (hook ?s1)) = isListening (hook ?s1)"
      "finalTranscript (handleEnd (hook ?s1)) = finalTranscript (hook ?s1)"
      unfolding h1 by (subst again, simp)+
    have "stateRefEffect (handleEnd (hook ?s1)) =
        (hook ?s1)\<lparr>engine_calls := engine_calls (handleEnd (handleEnd (hook s)))\<rparr>"
      unfolding h1 by (subst again) (simp add: stateRefEffect_def)
    then show ?thesis
      by (simp add: app_step_def [of c2] Let_def same)
  qed
  have unrendered: "app_handler Recognition_onend (app_handler Recognition_onend s') =
       (app_handler Recognition_onend s')
         \<lparr>hook := (hook (app_handler Recognition_onend s'))
            \<lparr>engine_calls := engine_calls (handleEnd (handleEnd (hook s')))\<rparr>\<rparr>"
    using handleEnd_twice [of "hook s'"] by simp
  show ?thesis
  proof (cases "upToDate (hook s)")
    case True
    from rendered_case [OF True] unrendered True show ?thesis
      by simp
  next
    case False
    with unrendered show ?thesis
      by simp
  qed
qed

text \<open>
  Scenario C with the end delivered twice: the history holds the one entry "test" after
  the first end and after the second.
\<close>

theorem second_end_is_noop_witness:
  "upToDate (hook stopping)
   \<and> history (app_step clock1 Recognition_onend stopping) =
     [\<lparr>id' = 1000, date = js ''03/11/2026, 10:00:01'', content = js ''test''\<rparr>]
   \<and> history (app_step clock2 Recognition_onend (app_step clock1 Recognition_onend stopping)) =
     [\<lparr>id' = 1000, date = js ''03/11/2026, 10:00:01'', content = js ''test''\<rparr>]
   \<and> finalTranscript (hook
        (app_step clock2 Recognition_onend (app_step clock1 Recognition_onend stopping))) =
       js ''test''"
proof -
  have up: "upToDate (hook stopping)"
    by (simp add: stopping_eval upToDate_def)
  have "app_step clock1 Recognition_onend stopping = scenario_C"
    by (simp add: scenario_C_def)
  then show ?thesis
    using second_end_is_noop [of stopping clock2 clock1] up
    by (simp add: scenario_C_eval)
qed

section \<open>Deleting the entry of the current transcript\<close>

text \<open>
  C10: the save runs after every event that changes the listening flag or the final
  transcript or that replaces the history, and a deletion replaces the history. So, in
  every state in which the session is not listening and the trimmed final transcript is
  not empty, deleting by its id the entry (or entries) holding that trimmed transcript
  is followed at once by the creation of a new entry with the same content, in front of
  what the deletion left; the listening flag and the final transcript have not changed.
  Scenario C ends in such a state.
\<close>

theorem delete_recreates_entry:
  assumes "\<not> isListening (hook s)"
    and "trim (finalTranscript (hook s)) \<noteq> []"
    and "list_ex (\<lambda>item. id' item = i \<and>
           trim (content item) = trim (finalTranscript (hook s))) (history s)"
    and "list_all (\<lambda>item. id' item = i \<or>
           trim (content item) \<noteq> trim (finalTranscript (hook s))) (history s)"
  shows "history (app_step c (HandleDeleteTranscript i) s) =
       \<lparr>id' = Date_now c, date = toLocaleString c, content = trim (finalTranscript (hook s))\<rparr>
       # filter (\<lambda>item. id' item \<noteq> i) (history s)
     \<and> isListening (hook (app_step c (HandleDeleteTranscript i) s)) = isListening (hook s)
     \<and> finalTranscript (hook (app_step c (HandleDeleteTranscript i) s)) =
         finalTranscript (hook s)"
proof -
  let ?s2 = "(handleDeleteTranscript i s)\<lparr>hook := stateRefEffect (hook s)\<rparr>"
  have parts: "hook ?s2 = stateRefEffect (hook s)"
    "history ?s2 = filter (\<lambda>item. id' item \<noteq> i) (history s)"
    by (simp_all add: handleDeleteTranscript_def)
  have "\<not> isAlreadySaved (trim (finalTranscript (hook s))) (history ?s2)"
    using assms(4) unfolding parts
    by (auto simp: isAlreadySaved_def list_ex_iff list_all_iff)
  then have "setsHistory ?s2"
    using assms(1,2) by (auto simp: setsHistory_def parts stateRefEffect_cells trim_Nil)
  then have "history (settle c ?s2) =
       \<lparr>id' = Date_now c, date = toLocaleString c, content = trim (finalTranscript (hook s))\<rparr>
       # filter (\<lambda>item. id' item \<noteq> i) (history s)"
    by (simp add: settle_eq history_saveEffect parts stateRefEffect_cells)
  moreover have "app_step c (HandleDeleteTranscript i) s = settle c ?s2"
    by (simp add: app_step_def Let_def handleDeleteTranscript_def)
  ultimately show ?thesis
    by (simp add: hook_settle parts stateRefEffect_cells)
qed

text \<open>
  At the end of Scenario C the history is the entry "test" with id 1000; deleting id 1000
  at a later time leaves the history with an entry "test" again, created at that time.
\<close>

theorem delete_recreates_entry_witness:
  "\<not> isListening (hook scenario_C)
   \<and> trim (finalTranscript (hook scenario_C)) \<noteq> []
   \<and> history scenario_C =
       [\<lparr>id' = 1000, date = js ''03/11/2026, 10:00:01'', content = js ''test''\<rparr>]
   \<and> history (app_step clock2 (HandleDeleteTranscript 1000) scenario_C) =
       [\<lparr>id' = 2000, date = js ''03/11/2026, 10:00:02'', content = js ''test''\<rparr>]"
proof -
  have a: "\<not> isListening (hook scenario_C)"
    and b: "trim (finalTranscript (hook scenario_C)) \<noteq> []"
    and c: "list_ex (\<lambda>item. id' item = 1000 \<and>
           trim (content item) = trim (finalTranscript (hook scenario_C))) (history scenario_C)"
    and d: "list_all (\<lambda>item. id' item = 1000 \<or>
           trim (content item) \<noteq> trim (finalTranscript (hook scenario_C))) (history scenario_C)"
    by (simp_all add: scenario_C_eval trim_examples) (simp add: js_def)
  show ?thesis
    using delete_recreates_entry [OF a b c d, of clock2] a b
    by (simp add: scenario_C_eval trim_examples clock2_def)
qed

end
